theory Spec2Isabelle
  imports Main "HOL-Library.Word" "HOL-Library.Multiset"
begin

unbundle bit_operations_syntax

section \<open>Syntax tree (php7parser's Token and Phrase)\<close>

text \<open>
  The token and phrase types the two source files name; every other member of the
  parser's enumerations is \<open>OtherToken n\<close> or \<open>OtherPhrase n\<close>.
\<close>

datatype TokenType =
  Backslash | Name | VariableName | Dollar | ColonColon | Arrow | OtherToken nat

datatype PhraseType =
  NamespaceName | FullyQualifiedName | QualifiedName | RelativeQualifiedName
  | ClassTypeDesignator | SimpleVariable | StatementList
  | ScopedCallExpression | ErrorScopedAccessExpression
  | ClassConstantAccessExpression | ScopedPropertyAccessExpression
  | ScopedMemberName | Identifier | PropertyAccessExpression | MethodCallExpression
  | MemberName | OtherPhrase nat

record Token =
  tokenType :: TokenType
  offset :: nat
  length_t :: nat

text \<open>A node is a token (a leaf) or a phrase with its ordered children.\<close>

datatype Node = Tok Token | Phr PhraseType "Node list"

record Position =
  line :: nat
  character :: nat

record Range =
  range_start :: Position
  range_end :: Position

datatype error = TypeError | InvalidArgument

section \<open>ParsedDocument: tokens and ranges\<close>

text \<open>
  \<open>firstToken\<close>: a token is returned as it is; for a phrase the children are tried
  from index 0 upwards and the first result that is not null is returned, null
  (\<open>None\<close>) when the loop ends. \<open>firstToken_children\<close> is that loop.
\<close>

fun firstToken :: "Node \<Rightarrow> Token option"
  and firstToken_children :: "Node list \<Rightarrow> Token option" where
  "firstToken (Tok t) = Some t"
| "firstToken (Phr ty cs) = firstToken_children cs"
| "firstToken_children [] = None"
| "firstToken_children (c # cs) =
     (case firstToken c of Some t \<Rightarrow> Some t | None \<Rightarrow> firstToken_children cs)"

text \<open>
  \<open>lastToken\<close>: the same with the loop running from the last child down to index 0,
  so a child is tried only when every child to its right gave null.
\<close>

fun lastToken :: "Node \<Rightarrow> Token option"
  and lastToken_children :: "Node list \<Rightarrow> Token option" where
  "lastToken (Tok t) = Some t"
| "lastToken (Phr ty cs) = lastToken_children cs"
| "lastToken_children [] = None"
| "lastToken_children (c # cs) =
     (case lastToken_children cs of Some t \<Rightarrow> Some t | None \<Rightarrow> lastToken c)"

text \<open>
  \<open>phraseRange\<close>. The text document is not part of the two source files; its
  \<open>positionAtOffset\<close> is the parameter \<open>pao\<close>.
\<close>

definition phraseRange :: "(nat \<Rightarrow> Position) \<Rightarrow> Node \<Rightarrow> Range option" where
  "phraseRange pao p =
     (case (firstToken p, lastToken p) of
        (Some tFirst, Some tLast) \<Rightarrow>
          Some \<lparr>range_start = pao (offset tFirst),
                range_end = pao (offset tLast + length_t tLast)\<rparr>
      | _ \<Rightarrow> None)"

text \<open>
  The descendant tokens of a node, left to right: the notion the range properties
  are stated with (not a function of the source).
\<close>

fun tokens :: "Node \<Rightarrow> Token list" where
  "tokens (Tok t) = [t]"
| "tokens (Phr ty cs) = concat (map tokens cs)"

definition token_end :: "Token \<Rightarrow> nat" where
  "token_end t = offset t + length_t t"

section \<open>ParsedDocument: createAnonymousName\<close>

text \<open>
  A line or column number as JavaScript prints it: the decimal digits of a
  non-negative integer, most significant first, no sign and no leading zero.
\<close>

definition digit :: "nat \<Rightarrow> char" where
  "digit d = char_of (48 + d)"

function numberToString :: "nat \<Rightarrow> string" where
  "numberToString n =
     (if n < 10 then [digit n]
      else numberToString (n div 10) @ [digit (n mod 10)])"
  by pat_completeness auto
termination
  by (relation "measure id") auto

declare numberToString.simps [simp del]

text \<open>\<open>Array.prototype.join\<close>: the elements with the separator between neighbours.\<close>

fun join :: "string list \<Rightarrow> string \<Rightarrow> string" where
  "join [] sep = []"
| "join [x] sep = x"
| "join (x # y # ys) sep = x @ sep @ join (y # ys) sep"

text \<open>
  \<open>createAnonymousName\<close> reads \<open>range.start\<close> and \<open>range.end\<close> with no check:
  when \<open>phraseRange\<close> returned null the property read raises a TypeError.
\<close>

definition createAnonymousName :: "(nat \<Rightarrow> Position) \<Rightarrow> Node \<Rightarrow> error + string" where
  "createAnonymousName pao node =
     (case phraseRange pao node of
        None \<Rightarrow> Inl TypeError
      | Some rng \<Rightarrow>
          (let suffix = join (map numberToString
                 [line (range_start rng), character (range_start rng),
                  line (range_end rng), character (range_end rng)]) ''#''
           in Inr (''#anonymous#'' @ suffix)))"


section \<open>ParsedDocument: applyChanges\<close>

record TextDocumentContentChangeEvent =
  change_range :: Range
  change_text :: string

definition textDocumentChangeCompareFn ::
  "TextDocumentContentChangeEvent \<Rightarrow> TextDocumentContentChangeEvent \<Rightarrow> int" where
  "textDocumentChangeCompareFn a b =
     (if line (range_end (change_range a)) > line (range_end (change_range b)) then - 1
      else if line (range_end (change_range a)) < line (range_end (change_range b)) then 1
      else int (character (range_end (change_range b)))
           - int (character (range_end (change_range a))))"

text \<open>
  \<open>Array.prototype.sort\<close> with a comparator, as a stable insertion sort: \<open>x\<close> goes
  before the first \<open>y\<close> with \<open>cmp x y \<le> 0\<close>.
\<close>

fun insert_sorted :: "('a \<Rightarrow> 'a \<Rightarrow> int) \<Rightarrow> 'a \<Rightarrow> 'a list \<Rightarrow> 'a list" where
  "insert_sorted cmp x [] = [x]"
| "insert_sorted cmp x (y # ys) =
     (if cmp x y \<le> 0 then x # y # ys else y # insert_sorted cmp x ys)"

fun array_sort :: "('a \<Rightarrow> 'a \<Rightarrow> int) \<Rightarrow> 'a list \<Rightarrow> 'a list" where
  "array_sort cmp [] = []"
| "array_sort cmp (x # xs) = insert_sorted cmp x (array_sort cmp xs)"

text \<open>
  A parsed document: its text document (of a type \<open>'d\<close>, the text buffer is not part
  of the two source files), its parse tree, and whether the debounced reparse is
  pending.
\<close>

record 'd ParsedDocument =
  uri :: string
  textDocument :: 'd
  parseTree :: Node
  reparsePending :: bool

text \<open>The loop of \<open>applyChanges\<close>: \<open>applyEdit\<close> on each change, from index 0 upwards.\<close>

fun applyEdits ::
  "('d \<Rightarrow> Position \<Rightarrow> Position \<Rightarrow> string \<Rightarrow> 'd) \<Rightarrow> 'd \<Rightarrow> TextDocumentContentChangeEvent list \<Rightarrow> 'd" where
  "applyEdits applyEdit d [] = d"
| "applyEdits applyEdit d (change # rest) =
     applyEdits applyEdit
       (applyEdit d (range_start (change_range change)) (range_end (change_range change))
          (change_text change))
       rest"

definition applyChanges ::
  "('d \<Rightarrow> Position \<Rightarrow> Position \<Rightarrow> string \<Rightarrow> 'd) \<Rightarrow> 'd ParsedDocument
     \<Rightarrow> TextDocumentContentChangeEvent list \<Rightarrow> 'd ParsedDocument" where
  "applyChanges applyEdit doc contentChanges =
     (let sorted_changes = array_sort textDocumentChangeCompareFn contentChanges
      in doc\<lparr>textDocument := applyEdits applyEdit (textDocument doc) sorted_changes,
              reparsePending := True\<rparr>)"

text \<open>
  A text document that only records the calls of \<open>applyEdit\<close> it receives, in order:
  with it \<open>applyChanges\<close> shows the order in which it applies a batch.
\<close>

definition record_applyEdit ::
  "TextDocumentContentChangeEvent list \<Rightarrow> Position \<Rightarrow> Position \<Rightarrow> string
     \<Rightarrow> TextDocumentContentChangeEvent list" where
  "record_applyEdit calls s e t = calls @ [\<lparr>change_range = \<lparr>range_start = s, range_end = e\<rparr>, change_text = t\<rparr>]"

definition applied_order :: "TextDocumentContentChangeEvent list \<Rightarrow> TextDocumentContentChangeEvent list" where
  "applied_order contentChanges =
     textDocument (applyChanges record_applyEdit
       \<lparr>uri = ''file:///a.php'', textDocument = [], parseTree = Phr StatementList [],
        reparsePending = False\<rparr> contentChanges)"

definition end_line :: "TextDocumentContentChangeEvent \<Rightarrow> nat" where
  "end_line c = line (range_end (change_range c))"

definition end_character :: "TextDocumentContentChangeEvent \<Rightarrow> nat" where
  "end_character c = character (range_end (change_range c))"

text \<open>\<open>applied_before a b\<close>: the end of \<open>a\<close> is not before the end of \<open>b\<close>.\<close>

definition applied_before :: "TextDocumentContentChangeEvent \<Rightarrow> TextDocumentContentChangeEvent \<Rightarrow> bool" where
  "applied_before a b \<longleftrightarrow>
     end_line b < end_line a \<or> (end_line b = end_line a \<and> end_character b \<le> end_character a)"

definition ex_edit :: "nat \<Rightarrow> nat \<Rightarrow> nat \<Rightarrow> nat \<Rightarrow> string \<Rightarrow> TextDocumentContentChangeEvent" where
  "ex_edit sl sc el ec t =
     \<lparr>change_range = \<lparr>range_start = \<lparr>line = sl, character = sc\<rparr>,
                       range_end = \<lparr>line = el, character = ec\<rparr>\<rparr>,
      change_text = t\<rparr>"

definition ex_batch :: "TextDocumentContentChangeEvent list" where
  "ex_batch = [ex_edit 0 1 0 4 ''a'', ex_edit 2 0 3 1 ''b'', ex_edit 0 6 0 9 ''c'']"

section \<open>Symbols (symbol.ts)\<close>

text \<open>
  Modelled from the spec: the enumerations \<open>SymbolKind\<close> and \<open>SymbolModifier\<close> of
  the symbol index are declared in a file that is not among the sources. The spec
  names the kinds (class, function, constant, variable, parameter, property,
  method, class constant) and the modifiers (public, protected, private, static,
  abstract, anonymous, import alias); the code joins them with \<open>|\<close> and tests them
  with \<open>&\<close>, so each member is a bit of its own in a 32-bit integer.
\<close>

type_synonym flags = "32 word"

definition SymbolKind_Class :: flags where "SymbolKind_Class = 1"
definition SymbolKind_Constant :: flags where "SymbolKind_Constant = 8"
definition SymbolKind_Property :: flags where "SymbolKind_Property = 16"
definition SymbolKind_Method :: flags where "SymbolKind_Method = 32"
definition SymbolKind_Function :: flags where "SymbolKind_Function = 64"
definition SymbolKind_Parameter :: flags where "SymbolKind_Parameter = 128"
definition SymbolKind_Variable :: flags where "SymbolKind_Variable = 256"
definition SymbolKind_ClassConstant :: flags where "SymbolKind_ClassConstant = 1024"

definition SymbolModifier_Public :: flags where "SymbolModifier_Public = 1"
definition SymbolModifier_Protected :: flags where "SymbolModifier_Protected = 2"
definition SymbolModifier_Private :: flags where "SymbolModifier_Private = 4"
definition SymbolModifier_Abstract :: flags where "SymbolModifier_Abstract = 32"
definition SymbolModifier_Static :: flags where "SymbolModifier_Static = 64"
definition SymbolModifier_Anonymous :: flags where "SymbolModifier_Anonymous = 1024"
definition SymbolModifier_Use :: flags where "SymbolModifier_Use = 8192"

text \<open>
  A type value of the index: its text (\<open>toString()\<close>) and the class names it is a
  union of (\<open>atomicClassArray()\<close>).
\<close>

record TypeString =
  toString :: string
  atomicClassArray :: "string list"

text \<open>
  The fields of a symbol that the completion code reads. \<open>associated\<close> holds the
  names of the associated symbols; \<open>location\<close> is \<open>None\<close> for a built-in symbol.
\<close>

record PhpSymbol =
  kind :: flags
  name :: string
  modifiers :: flags
  description :: "string option"
  type_of :: "TypeString option"
  associated :: "string list"
  location :: "string option"

record MemberQuery =
  typeName :: string
  memberPredicate :: "PhpSymbol \<Rightarrow> bool"

text \<open>
  The symbol index: \<open>match\<close> gives the symbols that match a text and pass a filter,
  \<open>lookupMembersOnTypes\<close> the members that the queries select, both in the index's
  order.
\<close>

record SymbolStore =
  match :: "string \<Rightarrow> (PhpSymbol \<Rightarrow> bool) \<Rightarrow> PhpSymbol list"
  lookupMembersOnTypes :: "MemberQuery list \<Rightarrow> PhpSymbol list"

section \<open>Completion items\<close>

text \<open>The members of \<open>lsp.CompletionItemKind\<close> and \<open>lsp.SymbolKind\<close> the code uses.\<close>

datatype ItemKind =
  CompletionItemKind_Keyword | CompletionItemKind_Method | CompletionItemKind_Value
  | CompletionItemKind_Property | LspSymbolKind_Class | LspSymbolKind_Function
  | LspSymbolKind_Constant | LspSymbolKind_String | LspSymbolKind_Constructor
  | LspSymbolKind_Variable

datatype InsertTextFormat = PlainText | Snippet

record CompletionItem =
  label :: string
  item_kind :: ItemKind
  detail :: "string option"
  documentation :: "string option"
  insertText :: "string option"
  insertTextFormat :: "InsertTextFormat option"

record CompletionList =
  items :: "CompletionItem list"
  isIncomplete :: bool

definition noCompletionResponse :: CompletionList where
  "noCompletionResponse = \<lparr>items = [], isIncomplete = False\<rparr>"

text \<open>
  \<open>keywordCompletionItems\<close>: one item for each keyword that \<open>util.fuzzyStringMatch\<close>
  accepts for the text, in the order of the keyword list. The matcher is not among
  the sources: it is the parameter \<open>fuzzy\<close>.
\<close>

fun keywordCompletionItems ::
  "(string \<Rightarrow> string \<Rightarrow> bool) \<Rightarrow> string list \<Rightarrow> string \<Rightarrow> CompletionItem list" where
  "keywordCompletionItems fuzzy [] text = []"
| "keywordCompletionItems fuzzy (kw # kws) text =
     (if fuzzy text kw
      then \<lparr>label = kw, item_kind = CompletionItemKind_Keyword, detail = None,
            documentation = None, insertText = None, insertTextFormat = None\<rparr>
           # keywordCompletionItems fuzzy kws text
      else keywordCompletionItems fuzzy kws text)"

definition symbolKindToLspSymbolKind :: "flags \<Rightarrow> ItemKind" where
  "symbolKindToLspSymbolKind k =
     (if k = SymbolKind_Class then LspSymbolKind_Class
      else if k = SymbolKind_Function then LspSymbolKind_Function
      else if k = SymbolKind_Constant then LspSymbolKind_Constant
      else LspSymbolKind_String)"

text \<open>\<open>s.indexOf(t) === 0\<close>: \<open>t\<close> is a prefix of \<open>s\<close>.\<close>

definition startsWith :: "string \<Rightarrow> string \<Rightarrow> bool" where
  "startsWith s t = (take (length t) s = t)"

definition toNameCompletionItem ::
  "PhpSymbol \<Rightarrow> string \<Rightarrow> PhraseType option \<Rightarrow> ItemKind option \<Rightarrow> CompletionItem" where
  "toNameCompletionItem s namespace namePhraseType kind_opt =
     (let (label1, detail1) =
        (if namespace \<noteq> [] \<and> startsWith (name s) namespace
            \<and> length (name s) > length namespace + 1
         then (drop (length namespace + 1) (name s), name s)
         else if namespace \<noteq> [] \<and> namePhraseType \<noteq> Some FullyQualifiedName
            \<and> (modifiers s AND SymbolModifier_Use) = 0
         then (CHR 0x5C # name s, name s)
         else if 0 < sint (modifiers s AND SymbolModifier_Use) \<and> associated s \<noteq> []
         then (name s, hd (associated s))
         else (name s, name s));
          k = (case kind_opt of None \<Rightarrow> symbolKindToLspSymbolKind (kind s) | Some k' \<Rightarrow> k')
      in \<lparr>label = label1, item_kind = k, detail = Some detail1,
          documentation = description s, insertText = Some (label1 @ ''($0)''),
          insertTextFormat = Some Snippet\<rparr>)"

definition toMethodCompletionItem :: "PhpSymbol \<Rightarrow> CompletionItem" where
  "toMethodCompletionItem s =
     \<lparr>label = name s, item_kind = CompletionItemKind_Method, detail = Some [],
      documentation = description s, insertText = None, insertTextFormat = None\<rparr>"

definition toClassConstantCompletionItem :: "PhpSymbol \<Rightarrow> CompletionItem" where
  "toClassConstantCompletionItem s =
     \<lparr>label = name s, item_kind = CompletionItemKind_Value, detail = None,
      documentation = description s, insertText = None, insertTextFormat = None\<rparr>"

definition toPropertyCompletionItem :: "PhpSymbol \<Rightarrow> CompletionItem" where
  "toPropertyCompletionItem s =
     \<lparr>label = (if (modifiers s AND SymbolModifier_Static) = 0 then drop 1 (name s)
               else name s),
      item_kind = CompletionItemKind_Property,
      detail = Some (case type_of s of None \<Rightarrow> [] | Some t \<Rightarrow> toString t),
      documentation = description s, insertText = None, insertTextFormat = None\<rparr>"

section \<open>Member access strategies: predicates and item conversion\<close>

text \<open>
  \<open>ScopedAccessCompletion._toCompletionItem\<close> and
  \<open>ObjectAccessCompletion._toCompletionItem\<close>: the \<open>default\<close> branch of the switch
  throws \<open>Error('Invalid Argument')\<close>.
\<close>

definition ScopedAccess_toCompletionItem :: "PhpSymbol \<Rightarrow> error + CompletionItem" where
  "ScopedAccess_toCompletionItem s =
     (if kind s = SymbolKind_ClassConstant then Inr (toClassConstantCompletionItem s)
      else if kind s = SymbolKind_Method then Inr (toMethodCompletionItem s)
      else if kind s = SymbolKind_Property then Inr (toPropertyCompletionItem s)
      else Inl InvalidArgument)"

definition ObjectAccess_toCompletionItem :: "PhpSymbol \<Rightarrow> error + CompletionItem" where
  "ObjectAccess_toCompletionItem s =
     (if kind s = SymbolKind_Method then Inr (toMethodCompletionItem s)
      else if kind s = SymbolKind_Property then Inr (toPropertyCompletionItem s)
      else Inl InvalidArgument)"

text \<open>The three predicates of \<open>ScopedAccessCompletion\<close>.\<close>

definition ScopedAccess_createMembersPredicate ::
  "(string \<Rightarrow> string \<Rightarrow> bool) \<Rightarrow> string \<Rightarrow> PhpSymbol \<Rightarrow> bool" where
  "ScopedAccess_createMembersPredicate fuzzy text s \<longleftrightarrow>
     ((0 < sint (kind s AND (SymbolKind_Method OR SymbolKind_Property))
         \<and> 0 < sint (modifiers s AND SymbolModifier_Static))
       \<or> kind s = SymbolKind_ClassConstant)
     \<and> (modifiers s AND (SymbolModifier_Private OR SymbolModifier_Protected)) = 0
     \<and> fuzzy text (name s)"

definition ScopedAccess_createBaseMembersPredicate ::
  "(string \<Rightarrow> string \<Rightarrow> bool) \<Rightarrow> string \<Rightarrow> PhpSymbol \<Rightarrow> bool" where
  "ScopedAccess_createBaseMembersPredicate fuzzy text s \<longleftrightarrow>
     ((0 < sint (kind s AND (SymbolKind_Method OR SymbolKind_Property))
         \<and> 0 < sint (modifiers s AND SymbolModifier_Static))
       \<or> kind s = SymbolKind_ClassConstant)
     \<and> (modifiers s AND SymbolModifier_Private) = 0
     \<and> fuzzy text (name s)"

definition ScopedAccess_createOwnMembersPredicate ::
  "(string \<Rightarrow> string \<Rightarrow> bool) \<Rightarrow> string \<Rightarrow> PhpSymbol \<Rightarrow> bool" where
  "ScopedAccess_createOwnMembersPredicate fuzzy text s \<longleftrightarrow>
     ((0 < sint (kind s AND (SymbolKind_Method OR SymbolKind_Property))
         \<and> 0 < sint (modifiers s AND SymbolModifier_Static))
       \<or> kind s = SymbolKind_ClassConstant)
     \<and> fuzzy text (name s)"

text \<open>
  The three predicates of \<open>ObjectAccessCompletion\<close>. In the base predicate the
  source writes \<open>!(s.modifiers & SymbolModifier.Private | SymbolModifier.Static)\<close>
  with no parentheses around the two modifiers: \<open>&\<close> binds tighter than \<open>|\<close>, so the
  operand of \<open>!\<close> is \<open>(s.modifiers & Private) | Static\<close>.
\<close>

definition ObjectAccess_createMembersPredicate ::
  "(string \<Rightarrow> string \<Rightarrow> bool) \<Rightarrow> string \<Rightarrow> PhpSymbol \<Rightarrow> bool" where
  "ObjectAccess_createMembersPredicate fuzzy text s \<longleftrightarrow>
     0 < sint (kind s AND (SymbolKind_Method OR SymbolKind_Property))
     \<and> (modifiers s AND (SymbolModifier_Private OR SymbolModifier_Protected
                          OR SymbolModifier_Static)) = 0
     \<and> fuzzy text (name s)"

definition ObjectAccess_createBaseMembersPredicate ::
  "(string \<Rightarrow> string \<Rightarrow> bool) \<Rightarrow> string \<Rightarrow> PhpSymbol \<Rightarrow> bool" where
  "ObjectAccess_createBaseMembersPredicate fuzzy text s \<longleftrightarrow>
     0 < sint (kind s AND (SymbolKind_Method OR SymbolKind_Property))
     \<and> ((modifiers s AND SymbolModifier_Private) OR SymbolModifier_Static) = 0
     \<and> fuzzy text (name s)"

definition ObjectAccess_createOwnMembersPredicate ::
  "(string \<Rightarrow> string \<Rightarrow> bool) \<Rightarrow> string \<Rightarrow> PhpSymbol \<Rightarrow> bool" where
  "ObjectAccess_createOwnMembersPredicate fuzzy text s \<longleftrightarrow>
     0 < sint (kind s AND (SymbolKind_Method OR SymbolKind_Property))
     \<and> (modifiers s AND SymbolModifier_Static) = 0
     \<and> fuzzy text (name s)"

section \<open>Traverser and context\<close>

text \<open>
  Modelled from the spec: the tree traverser (types.ts is not among the sources) is a
  cursor with the path of ancestors of its node, the spine. Here the spine has the
  node at its head, followed by its ancestors, the nearest first. \<open>node\<close> is the head
  and \<open>ancestor(predicate)\<close> the nearest proper ancestor that satisfies the
  predicate, none when there is none.
\<close>

type_synonym Traverser = "Node list"

definition traverser_node :: "Traverser \<Rightarrow> Node option" where
  "traverser_node tr = (case tr of [] \<Rightarrow> None | n # ancestors \<Rightarrow> Some n)"

definition traverser_ancestor :: "(Node \<Rightarrow> bool) \<Rightarrow> Traverser \<Rightarrow> Node option" where
  "traverser_ancestor p tr = List.find p (tl tr)"

text \<open>
  What the completion code takes from files that are not among the sources, as
  parameters: the fuzzy matcher of util.ts; \<open>parent()\<close> of the traverser, which
  returns a node and may move the cursor (the result is the node and the traverser
  after the call); and the \<open>scope\<close> and \<open>variable\<close> fields of the parser's
  scoped-access and object-access phrases.
\<close>

record Collaborators =
  fuzzyStringMatch :: "string \<Rightarrow> string \<Rightarrow> bool"
  traverser_parent :: "Traverser \<Rightarrow> Node option \<times> Traverser"
  scope_of :: "Node \<Rightarrow> Node option"
  variable_of :: "Node \<Rightarrow> Node option"

text \<open>
  The context of a request (context.ts is not among the sources): what the
  strategies read from it. \<open>createTraverser\<close> is the fresh traverser at the cursor;
  the last three fields are those of the name resolver the context creates.
\<close>

record Context =
  createTraverser :: Traverser
  context_offset :: nat
  word :: string
  thisName :: string
  thisBaseName :: string
  scopeSymbol_children :: "PhpSymbol list"
  context_symbolStore :: SymbolStore
  resolveExpressionType :: "Node option \<Rightarrow> TypeString"
  namespaceName :: string
  namespaceNamePhraseText :: "Node option \<Rightarrow> nat \<Rightarrow> string"
  resolveRelative :: "string \<Rightarrow> string"

text \<open>
  \<open>ParsedDocument.isToken\<close> and \<open>isPhrase\<close>: false for null, for a node of the other
  variant, and for a type outside \<open>types\<close> when \<open>types\<close> is given.
\<close>

definition isToken :: "Node option \<Rightarrow> TokenType list option \<Rightarrow> bool" where
  "isToken node types =
     (case node of
        Some (Tok t) \<Rightarrow> (case types of None \<Rightarrow> True | Some ts \<Rightarrow> tokenType t \<in> set ts)
      | _ \<Rightarrow> False)"

definition isPhrase :: "Node option \<Rightarrow> PhraseType list option \<Rightarrow> bool" where
  "isPhrase node types =
     (case node of
        Some (Phr ty cs) \<Rightarrow> (case types of None \<Rightarrow> True | Some ts \<Rightarrow> ty \<in> set ts)
      | _ \<Rightarrow> False)"

text \<open>\<open>node.phraseType\<close>: undefined (\<open>None\<close>) on a token.\<close>

definition phraseType_of :: "Node \<Rightarrow> PhraseType option" where
  "phraseType_of n = (case n of Phr ty cs \<Rightarrow> Some ty | Tok t \<Rightarrow> None)"

section \<open>Completion strategies\<close>

record CompletionStrategy =
  canSuggest :: "Context \<Rightarrow> bool"
  completions :: "Context \<Rightarrow> error + CompletionList"

subsection \<open>ClassTypeDesignatorCompletion\<close>

definition ClassTypeDesignator_keywords :: "string list" where
  "ClassTypeDesignator_keywords = [''class'', ''static'', ''namespace'']"

definition ClassTypeDesignator_canSuggest :: "Collaborators \<Rightarrow> Context \<Rightarrow> bool" where
  "ClassTypeDesignator_canSuggest co context =
     (let traverser = createTraverser context;
          (p1, t1) = traverser_parent co traverser;
          (p2, t2) = traverser_parent co t1;
          (p3, t3) = traverser_parent co t2
      in isToken (traverser_node traverser) (Some [Backslash, Name])
         \<and> isPhrase p1 (Some [NamespaceName])
         \<and> isPhrase p2 (Some [FullyQualifiedName, QualifiedName, RelativeQualifiedName])
         \<and> isPhrase p3 (Some [ClassTypeDesignator]))"

definition ClassTypeDesignator_symbolFilter :: "PhpSymbol \<Rightarrow> bool" where
  "ClassTypeDesignator_symbolFilter s \<longleftrightarrow>
     kind s = SymbolKind_Class
     \<and> (modifiers s AND (SymbolModifier_Anonymous OR SymbolModifier_Abstract)) = 0"

definition ClassTypeDesignator_completions ::
  "Collaborators \<Rightarrow> int \<Rightarrow> Context \<Rightarrow> error + CompletionList" where
  "ClassTypeDesignator_completions co maxSuggestions context =
     (let traverser = createTraverser context;
          (nsNameNode, t1) = traverser_parent co traverser;
          (qNameNode, t2) = traverser_parent co t1;
          text = namespaceNamePhraseText context nsNameNode (context_offset context)
      in if text = [] then Inr noCompletionResponse
         else (case qNameNode of
            None \<Rightarrow> Inl TypeError
          | Some q \<Rightarrow>
             (let keywordItems =
                    (if phraseType_of q = Some QualifiedName
                     then keywordCompletionItems (fuzzyStringMatch co)
                            ClassTypeDesignator_keywords text
                     else []);
                  text2 = (if phraseType_of q = Some RelativeQualifiedName
                           then resolveRelative context text else text);
                  matches = match (context_symbolStore context) text2
                              ClassTypeDesignator_symbolFilter;
                  limit = min (int (length matches)) (maxSuggestions - int (length keywordItems));
                  incomplete = (int (length matches) > maxSuggestions - int (length keywordItems))
              in Inr \<lparr>items = keywordItems @
                         map (\<lambda>s. toNameCompletionItem s (namespaceName context)
                                    (phraseType_of q) (Some LspSymbolKind_Constructor))
                             (take (nat limit) matches),
                       isIncomplete = incomplete\<rparr>)))"

definition ClassTypeDesignatorCompletion :: "Collaborators \<Rightarrow> int \<Rightarrow> CompletionStrategy" where
  "ClassTypeDesignatorCompletion co maxSuggestions =
     \<lparr>canSuggest = ClassTypeDesignator_canSuggest co,
      completions = ClassTypeDesignator_completions co maxSuggestions\<rparr>"

subsection \<open>SimpleVariableCompletion\<close>

definition SimpleVariable_canSuggest :: "Collaborators \<Rightarrow> Context \<Rightarrow> bool" where
  "SimpleVariable_canSuggest co context =
     (let traverser = createTraverser context;
          (p1, t1) = traverser_parent co traverser
      in isToken (traverser_node traverser) (Some [Dollar, VariableName])
         \<and> isPhrase p1 (Some [SimpleVariable]))"

definition isBuiltInGlobalVar :: "PhpSymbol \<Rightarrow> bool" where
  "isBuiltInGlobalVar s \<longleftrightarrow> kind s = SymbolKind_Variable \<and> location s = None"

definition SimpleVariable_toCompletionItem :: "PhpSymbol \<Rightarrow> CompletionItem" where
  "SimpleVariable_toCompletionItem s =
     \<lparr>label = name s, item_kind = LspSymbolKind_Variable, detail = None,
      documentation = description s, insertText = None, insertTextFormat = None\<rparr>"

definition SimpleVariable_completions :: "int \<Rightarrow> Context \<Rightarrow> error + CompletionList" where
  "SimpleVariable_completions maxSuggestions context =
     (let text = word context
      in if text = [] then Inr noCompletionResponse
         else
          (let varSymbols =
                 filter (\<lambda>x. 0 < sint (kind x AND (SymbolKind_Variable OR SymbolKind_Parameter))
                              \<and> startsWith (name x) text)
                        (scopeSymbol_children context)
                 @ match (context_symbolStore context) text isBuiltInGlobalVar;
               limit = min (int (length varSymbols)) maxSuggestions;
               incomplete = (int (length varSymbols) > maxSuggestions)
           in Inr \<lparr>items = map SimpleVariable_toCompletionItem (take (nat limit) varSymbols),
                    isIncomplete = incomplete\<rparr>))"

definition SimpleVariableCompletion :: "Collaborators \<Rightarrow> int \<Rightarrow> CompletionStrategy" where
  "SimpleVariableCompletion co maxSuggestions =
     \<lparr>canSuggest = SimpleVariable_canSuggest co,
      completions = SimpleVariable_completions maxSuggestions\<rparr>"

subsection \<open>NameCompletion\<close>

definition NameCompletion_statementKeywords :: "string list" where
  "NameCompletion_statementKeywords =
     [''__halt_compiler'', ''abstract'', ''break'', ''catch'', ''class'', ''const'',
      ''continue'', ''declare'', ''die'', ''do'', ''echo'', ''else'', ''elseif'',
      ''enddeclare'', ''endfor'', ''endforeach'', ''endif'', ''endswitch'', ''endwhile'',
      ''final'', ''finally'', ''for'', ''foreach'', ''function'', ''global'', ''goto'',
      ''if'', ''interface'', ''list'', ''namespace'', ''return'', ''static'', ''switch'',
      ''throw'', ''trait'', ''try'', ''unset'', ''use'', ''while'']"

definition NameCompletion_expressionKeywords :: "string list" where
  "NameCompletion_expressionKeywords =
     [''array'', ''clone'', ''empty'', ''eval'', ''exit'', ''function'', ''include'',
      ''include_once'', ''isset'', ''new'', ''parent'', ''print'', ''require'',
      ''require_once'', ''static'', ''yield'']"

definition NameCompletion_canSuggest :: "Collaborators \<Rightarrow> Context \<Rightarrow> bool" where
  "NameCompletion_canSuggest co context =
     (let traverser = createTraverser context;
          (p1, t1) = traverser_parent co traverser
      in isToken (traverser_node traverser) (Some [Backslash, Name])
         \<and> isPhrase p1 (Some [FullyQualifiedName, QualifiedName, RelativeQualifiedName]))"

definition NameCompletion_symbolFilter :: "PhpSymbol \<Rightarrow> bool" where
  "NameCompletion_symbolFilter s \<longleftrightarrow>
     0 < sint (kind s AND (SymbolKind_Class OR SymbolKind_Function OR SymbolKind_Constant))
     \<and> (modifiers s AND SymbolModifier_Anonymous) = 0"

text \<open>
  The keyword items of \<open>NameCompletion.completions\<close>: for a qualified name the
  expression keywords, and the statement keywords after them when the third
  \<open>parent()\<close> is a statement list. Reading \<open>phraseType\<close> of a null \<open>qNameParent\<close>
  raises a TypeError.
\<close>

definition NameCompletion_keywordItems ::
  "Collaborators \<Rightarrow> Node \<Rightarrow> Node option \<Rightarrow> string \<Rightarrow> error + CompletionItem list" where
  "NameCompletion_keywordItems co q qNameParent text =
     (if phraseType_of q = Some QualifiedName
      then (case qNameParent of
              None \<Rightarrow> Inl TypeError
            | Some qp \<Rightarrow>
                Inr (keywordCompletionItems (fuzzyStringMatch co)
                       NameCompletion_expressionKeywords text
                     @ (if phraseType_of qp = Some StatementList
                        then keywordCompletionItems (fuzzyStringMatch co)
                               NameCompletion_statementKeywords text
                        else [])))
      else Inr [])"

definition NameCompletion_completions ::
  "Collaborators \<Rightarrow> int \<Rightarrow> Context \<Rightarrow> error + CompletionList" where
  "NameCompletion_completions co maxSuggestions context =
     (let traverser = createTraverser context;
          (nsNameNode, t1) = traverser_parent co traverser;
          (qNameNode, t2) = traverser_parent co t1;
          (qNameParent, t3) = traverser_parent co t2;
          text = namespaceNamePhraseText context nsNameNode (context_offset context)
      in if text = [] then Inr noCompletionResponse
         else (case qNameNode of
            None \<Rightarrow> Inl TypeError
          | Some q \<Rightarrow>
             (case NameCompletion_keywordItems co q qNameParent text of
                Inl e \<Rightarrow> Inl e
              | Inr keywordItems \<Rightarrow>
                 (let text2 = (if phraseType_of q = Some RelativeQualifiedName
                               then resolveRelative context text else text);
                      matches = match (context_symbolStore context) text2
                                  NameCompletion_symbolFilter;
                      limit = min (int (length matches))
                                (maxSuggestions - int (length keywordItems));
                      incomplete = (int (length matches)
                                      > maxSuggestions - int (length keywordItems))
                  in Inr \<lparr>items = keywordItems @
                             map (\<lambda>s. toNameCompletionItem s (namespaceName context)
                                        (phraseType_of q) None)
                                 (take (nat limit) matches),
                           isIncomplete = incomplete\<rparr>))))"

definition NameCompletion :: "Collaborators \<Rightarrow> int \<Rightarrow> CompletionStrategy" where
  "NameCompletion co maxSuggestions =
     \<lparr>canSuggest = NameCompletion_canSuggest co,
      completions = NameCompletion_completions co maxSuggestions\<rparr>"

subsection \<open>ScopedAccessCompletion and ObjectAccessCompletion\<close>

text \<open>The loop that converts the first \<open>limit\<close> symbols; it stops at the first throw.\<close>

fun convert_items ::
  "(PhpSymbol \<Rightarrow> error + CompletionItem) \<Rightarrow> PhpSymbol list \<Rightarrow> error + CompletionItem list" where
  "convert_items f [] = Inr []"
| "convert_items f (s # ss) =
     (case f s of
        Inl e \<Rightarrow> Inl e
      | Inr i \<Rightarrow> (case convert_items f ss of Inl e \<Rightarrow> Inl e | Inr rest \<Rightarrow> Inr (i # rest)))"

definition scopedAccessPhrases :: "PhraseType list" where
  "scopedAccessPhrases =
     [ScopedCallExpression, ErrorScopedAccessExpression,
      ClassConstantAccessExpression, ScopedPropertyAccessExpression]"

definition ScopedAccess_canSuggest :: "Collaborators \<Rightarrow> Context \<Rightarrow> bool" where
  "ScopedAccess_canSuggest co context =
     (let traverser = createTraverser context;
          (p1, t1) = traverser_parent co traverser;
          (p2, t2) = traverser_parent co t1
      in if isToken (traverser_node traverser) (Some [ColonColon])
         then isPhrase p1 (Some scopedAccessPhrases)
         else if isToken (traverser_node traverser) (Some [VariableName])
         then isPhrase p1 (Some [ScopedMemberName])
         else if isToken (traverser_node traverser) (Some [Dollar])
         then isPhrase p1 (Some [SimpleVariable]) \<and> isPhrase p2 (Some [ScopedMemberName])
         else isPhrase p1 (Some [Identifier]) \<and> isPhrase p2 (Some [ScopedMemberName]))"

definition isScopedAccessExpr :: "Node \<Rightarrow> bool" where
  "isScopedAccessExpr node \<longleftrightarrow>
     (case phraseType_of node of
        Some ScopedCallExpression \<Rightarrow> True
      | Some ErrorScopedAccessExpression \<Rightarrow> True
      | Some ClassConstantAccessExpression \<Rightarrow> True
      | Some ScopedPropertyAccessExpression \<Rightarrow> True
      | _ \<Rightarrow> False)"

text \<open>
  The member queries: for each type name the own-members predicate when it is the
  name of the enclosing class, the base-members predicate when it is the name of its
  base class, the members predicate otherwise.
\<close>

definition memberQueries_of ::
  "Context \<Rightarrow> (PhpSymbol \<Rightarrow> bool) \<Rightarrow> (PhpSymbol \<Rightarrow> bool) \<Rightarrow> (PhpSymbol \<Rightarrow> bool)
     \<Rightarrow> string list \<Rightarrow> MemberQuery list" where
  "memberQueries_of context ownPred basePred memberPred typeNames =
     map (\<lambda>tn. \<lparr>typeName = tn,
                 memberPredicate =
                   (if tn = thisName context then ownPred
                    else if tn = thisBaseName context then basePred
                    else memberPred)\<rparr>) typeNames"

text \<open>
  \<open>ScopedAccessCompletion.completions\<close>. \<open>traverser.ancestor\<close> gives null when no
  ancestor is a scoped access expression, and reading \<open>scope\<close> of null raises a
  TypeError.
\<close>

definition ScopedAccess_completions ::
  "Collaborators \<Rightarrow> SymbolStore \<Rightarrow> int \<Rightarrow> Context \<Rightarrow> error + CompletionList" where
  "ScopedAccess_completions co store maxSuggestions context =
     (case traverser_ancestor isScopedAccessExpr (createTraverser context) of
        None \<Rightarrow> Inl TypeError
      | Some scopedAccessExpr \<Rightarrow>
         (let accessee = scope_of co scopedAccessExpr;
              ty = resolveExpressionType context accessee;
              text = word context;
              typeNames = atomicClassArray ty
          in if typeNames = [] then Inr noCompletionResponse
             else
              (let memberQueries = memberQueries_of context
                     (ScopedAccess_createOwnMembersPredicate (fuzzyStringMatch co) text)
                     (ScopedAccess_createBaseMembersPredicate (fuzzyStringMatch co) text)
                     (ScopedAccess_createMembersPredicate (fuzzyStringMatch co) text)
                     typeNames;
                   symbols = lookupMembersOnTypes store memberQueries;
                   incomplete = (int (length symbols) > maxSuggestions);
                   limit = min (int (length symbols)) maxSuggestions
               in (case convert_items ScopedAccess_toCompletionItem (take (nat limit) symbols) of
                     Inl e \<Rightarrow> Inl e
                   | Inr its \<Rightarrow> Inr \<lparr>items = its, isIncomplete = incomplete\<rparr>))))"

definition ScopedAccessCompletion ::
  "Collaborators \<Rightarrow> SymbolStore \<Rightarrow> int \<Rightarrow> CompletionStrategy" where
  "ScopedAccessCompletion co store maxSuggestions =
     \<lparr>canSuggest = ScopedAccess_canSuggest co,
      completions = ScopedAccess_completions co store maxSuggestions\<rparr>"

definition ObjectAccess_canSuggest :: "Collaborators \<Rightarrow> Context \<Rightarrow> bool" where
  "ObjectAccess_canSuggest co context =
     (let traverser = createTraverser context;
          (p1, t1) = traverser_parent co traverser
      in if isToken (traverser_node traverser) (Some [Arrow])
         then isPhrase p1 (Some [PropertyAccessExpression, MethodCallExpression])
         else isToken (traverser_node traverser) (Some [Name])
              \<and> isPhrase p1 (Some [PropertyAccessExpression, MethodCallExpression]))"

definition isMemberAccessExpr :: "Node \<Rightarrow> bool" where
  "isMemberAccessExpr node \<longleftrightarrow>
     (case phraseType_of node of
        Some PropertyAccessExpression \<Rightarrow> True
      | Some MethodCallExpression \<Rightarrow> True
      | _ \<Rightarrow> False)"

definition ObjectAccess_completions ::
  "Collaborators \<Rightarrow> SymbolStore \<Rightarrow> int \<Rightarrow> Context \<Rightarrow> error + CompletionList" where
  "ObjectAccess_completions co store maxSuggestions context =
     (case traverser_ancestor isMemberAccessExpr (createTraverser context) of
        None \<Rightarrow> Inl TypeError
      | Some objAccessExpr \<Rightarrow>
         (let ty = resolveExpressionType context (variable_of co objAccessExpr);
              typeNames = atomicClassArray ty;
              text = word context
          in if typeNames = [] then Inr noCompletionResponse
             else
              (let memberQueries = memberQueries_of context
                     (ObjectAccess_createOwnMembersPredicate (fuzzyStringMatch co) text)
                     (ObjectAccess_createBaseMembersPredicate (fuzzyStringMatch co) text)
                     (ObjectAccess_createMembersPredicate (fuzzyStringMatch co) text)
                     typeNames;
                   symbols = lookupMembersOnTypes store memberQueries;
                   incomplete = (int (length symbols) > maxSuggestions);
                   limit = min (int (length symbols)) maxSuggestions
               in (case convert_items ObjectAccess_toCompletionItem (take (nat limit) symbols) of
                     Inl e \<Rightarrow> Inl e
                   | Inr its \<Rightarrow> Inr \<lparr>items = its, isIncomplete = incomplete\<rparr>))))"

definition ObjectAccessCompletion ::
  "Collaborators \<Rightarrow> SymbolStore \<Rightarrow> int \<Rightarrow> CompletionStrategy" where
  "ObjectAccessCompletion co store maxSuggestions =
     \<lparr>canSuggest = ObjectAccess_canSuggest co,
      completions = ObjectAccess_completions co store maxSuggestions\<rparr>"

section \<open>ParsedDocumentStore and CompletionProvider\<close>

text \<open>
  The store keeps its documents in a plain object (\<open>{}\<close>) indexed by URI:
  \<open>parsedDocumentmap\<close> holds the object's own entries, those that \<open>add\<close> has stored.
  Reading a key of the object gives its own entry when it has one, and otherwise the
  member of that name that every plain object inherits from \<open>Object.prototype\<close>, when
  there is one; only a key that is neither reads as undefined (\<open>None\<close>). The
  inherited members are functions, and \<open>__proto__\<close> is the prototype object: none of
  them is undefined or falsy.
\<close>

record 'd ParsedDocumentStore =
  parsedDocumentmap :: "string \<rightharpoonup> 'd ParsedDocument"

definition objectPrototype_members :: "string list" where
  "objectPrototype_members =
     [''constructor'', ''hasOwnProperty'', ''isPrototypeOf'', ''propertyIsEnumerable'',
      ''toLocaleString'', ''toString'', ''valueOf'', ''__defineGetter__'',
      ''__defineSetter__'', ''__lookupGetter__'', ''__lookupSetter__'', ''__proto__'']"

datatype 'd StoreEntry = Document "'d ParsedDocument" | InheritedMember string

text \<open>\<open>ParsedDocumentStore.find\<close>: the read of \<open>_parsedDocumentmap[uri]\<close>.\<close>

definition find_document :: "'d ParsedDocumentStore \<Rightarrow> string \<Rightarrow> 'd StoreEntry option" where
  "find_document store u =
     (case parsedDocumentmap store u of
        Some doc \<Rightarrow> Some (Document doc)
      | None \<Rightarrow> if u \<in> set objectPrototype_members then Some (InheritedMember u) else None)"

record 'd CompletionProvider =
  symbolStore :: SymbolStore
  documentStore :: "'d ParsedDocumentStore"
  maxSuggestions :: int
  strategies :: "CompletionStrategy list"

text \<open>The constructor: the five strategies in the order of the source.\<close>

definition new_CompletionProvider ::
  "Collaborators \<Rightarrow> SymbolStore \<Rightarrow> 'd ParsedDocumentStore \<Rightarrow> int \<Rightarrow> 'd CompletionProvider" where
  "new_CompletionProvider co store docs maxS =
     \<lparr>symbolStore = store, documentStore = docs, maxSuggestions = maxS,
      strategies =
        [ClassTypeDesignatorCompletion co maxS,
         ScopedAccessCompletion co store maxS,
         ObjectAccessCompletion co store maxS,
         SimpleVariableCompletion co maxS,
         NameCompletion co maxS]\<rparr>"

text \<open>The loop of \<open>provideCompletions\<close>: it breaks at the first strategy that can suggest.\<close>

fun select_strategy :: "CompletionStrategy list \<Rightarrow> Context \<Rightarrow> CompletionStrategy option" where
  "select_strategy [] context = None"
| "select_strategy (s # ss) context =
     (if canSuggest s context then Some s else select_strategy ss context)"

text \<open>
  \<open>provideCompletions\<close>. The guard \<open>!doc\<close> returns the empty response only when
  \<open>find\<close> gave undefined; whatever else \<open>find\<close> gave goes to the constructor of the
  context. That constructor is the parameter \<open>newContext\<close>; like any constructor it
  may throw.
\<close>

definition provideCompletions ::
  "(SymbolStore \<Rightarrow> 'd StoreEntry \<Rightarrow> Position \<Rightarrow> error + Context) \<Rightarrow> 'd CompletionProvider
     \<Rightarrow> string \<Rightarrow> Position \<Rightarrow> error + CompletionList" where
  "provideCompletions newContext provider u position =
     (case find_document (documentStore provider) u of
        None \<Rightarrow> Inr noCompletionResponse
      | Some doc \<Rightarrow>
         (case newContext (symbolStore provider) doc position of
            Inl e \<Rightarrow> Inl e
          | Inr context \<Rightarrow>
             (case select_strategy (strategies provider) context of
                None \<Rightarrow> Inr noCompletionResponse
              | Some strategy \<Rightarrow> completions strategy context)))"

text \<open>Concrete inputs used to instantiate the theorems below.\<close>

definition ex_positionAtOffset :: "nat \<Rightarrow> Position" where
  "ex_positionAtOffset n = \<lparr>line = n div 80, character = n mod 80\<rparr>"

definition ex_overlap :: Node where
  "ex_overlap = Phr (OtherPhrase 0)
     [Tok \<lparr>tokenType = Name, offset = 0, length_t = 10\<rparr>,
      Tok \<lparr>tokenType = Name, offset = 5, length_t = 1\<rparr>]"

definition ex_call :: Node where
  "ex_call = Phr (OtherPhrase 0)
     [Phr (OtherPhrase 1) [],
      Tok \<lparr>tokenType = Name, offset = 3, length_t = 4\<rparr>,
      Phr (OtherPhrase 2) [Tok \<lparr>tokenType = OtherToken 0, offset = 7, length_t = 90\<rparr>],
      Phr (OtherPhrase 1) []]"

definition ex_tokenless :: Node where
  "ex_tokenless = Phr (OtherPhrase 0) [Phr (OtherPhrase 1) [], Phr (OtherPhrase 1) []]"

text \<open>
  Concrete collaborators: a matcher that accepts the subjects the query is a prefix
  of, a \<open>parent()\<close> that moves the cursor to the parent and returns it, and the first
  child as the \<open>scope\<close> and the \<open>variable\<close> of an access phrase.
\<close>

definition prefixMatch :: "string \<Rightarrow> string \<Rightarrow> bool" where
  "prefixMatch query subject = startsWith subject query"

definition parent_pop :: "Traverser \<Rightarrow> Node option \<times> Traverser" where
  "parent_pop tr = (traverser_node (tl tr), tl tr)"

definition first_child :: "Node \<Rightarrow> Node option" where
  "first_child n = (case n of Phr ty (c # cs) \<Rightarrow> Some c | _ \<Rightarrow> None)"

definition ex_collaborators :: Collaborators where
  "ex_collaborators =
     \<lparr>fuzzyStringMatch = prefixMatch, traverser_parent = parent_pop,
      scope_of = first_child, variable_of = first_child\<rparr>"

text \<open>
  A symbol index with the classes \<open>A\<close> and \<open>Foo\<close>, where \<open>A\<close> has a private method
  \<open>f\<close> and a public method \<open>g\<close>. \<open>match\<close> gives the classes that pass the filter and
  whose name the text is a prefix of; a member lookup gives, query by query, the
  members of the type that the query's predicate accepts.
\<close>

definition ex_method :: "string \<Rightarrow> flags \<Rightarrow> PhpSymbol" where
  "ex_method n m =
     \<lparr>kind = SymbolKind_Method, name = n, modifiers = m, description = None,
      type_of = None, associated = [], location = Some ''file:///a.php''\<rparr>"

definition ex_members :: "string \<Rightarrow> PhpSymbol list" where
  "ex_members tn =
     (if tn = ''A'' then [ex_method ''f'' SymbolModifier_Private,
                          ex_method ''g'' SymbolModifier_Public]
      else [])"

definition ex_class :: "string \<Rightarrow> PhpSymbol" where
  "ex_class n =
     \<lparr>kind = SymbolKind_Class, name = n, modifiers = 0, description = None,
      type_of = None, associated = [], location = Some ''file:///a.php''\<rparr>"

definition ex_store :: SymbolStore where
  "ex_store =
     \<lparr>match = (\<lambda>text p. filter (\<lambda>s. p s \<and> prefixMatch text (name s))
                          [ex_class ''A'', ex_class ''Foo'']),
      lookupMembersOnTypes =
        (\<lambda>qs. concat (map (\<lambda>q. filter (memberPredicate q) (ex_members (typeName q))) qs))\<rparr>"

text \<open>
  A context with a given spine, word, enclosing class, base class and class names
  of the accessed expression's type.
\<close>

definition ex_context ::
  "Traverser \<Rightarrow> string \<Rightarrow> string \<Rightarrow> string \<Rightarrow> string list \<Rightarrow> Context" where
  "ex_context spine w this base tys =
     \<lparr>createTraverser = spine, context_offset = 0, word = w, thisName = this,
      thisBaseName = base, scopeSymbol_children = [], context_symbolStore = ex_store,
      resolveExpressionType = (\<lambda>n. \<lparr>toString = [], atomicClassArray = tys\<rparr>),
      namespaceName = [], namespaceNamePhraseText = (\<lambda>n off. w),
      resolveRelative = (\<lambda>t. t)\<rparr>"

definition ex_token :: "TokenType \<Rightarrow> Node" where
  "ex_token ty = Tok \<lparr>tokenType = ty, offset = 0, length_t = 1\<rparr>"

text \<open>The spine of the name token of \<open>$a->g\<close>, of \<open>A::\<close>, and of \<open>new Foo\<close>.\<close>

definition ex_object_spine :: Traverser where
  "ex_object_spine =
     [ex_token Name, Phr MemberName [ex_token Name],
      Phr PropertyAccessExpression
        [Phr SimpleVariable [ex_token VariableName], ex_token Arrow,
         Phr MemberName [ex_token Name]]]"

definition ex_scoped_spine :: Traverser where
  "ex_scoped_spine =
     [ex_token ColonColon,
      Phr ErrorScopedAccessExpression
        [Phr QualifiedName [Phr NamespaceName [ex_token Name]], ex_token ColonColon]]"

definition ex_new_spine :: Traverser where
  "ex_new_spine =
     [ex_token Name, Phr NamespaceName [ex_token Name],
      Phr QualifiedName [Phr NamespaceName [ex_token Name]],
      Phr ClassTypeDesignator [Phr QualifiedName [Phr NamespaceName [ex_token Name]]]]"

definition ex_keyword_item :: "string \<Rightarrow> CompletionItem" where
  "ex_keyword_item kw =
     \<lparr>label = kw, item_kind = CompletionItemKind_Keyword, detail = None,
      documentation = None, insertText = None, insertTextFormat = None\<rparr>"

text \<open>
  A matcher that accepts the subjects the query is a subsequence of, and the
  collaborators with it.
\<close>

fun subsequenceMatch :: "string \<Rightarrow> string \<Rightarrow> bool" where
  "subsequenceMatch [] subject = True"
| "subsequenceMatch (q # qs) [] = False"
| "subsequenceMatch (q # qs) (c # cs) =
     (if q = c then subsequenceMatch qs cs else subsequenceMatch (q # qs) cs)"

definition ex_collaborators_subsequence :: Collaborators where
  "ex_collaborators_subsequence =
     \<lparr>fuzzyStringMatch = subsequenceMatch, traverser_parent = parent_pop,
      scope_of = first_child, variable_of = first_child\<rparr>"

text \<open>
  A document store with one document, and a context constructor that reads the
  document it is given: for a document it gives the context with a given spine and
  word, and for a value that is not a document the read raises a TypeError.
\<close>

definition ex_document :: "string ParsedDocument" where
  "ex_document =
     \<lparr>uri = ''file:///a.php'', textDocument = ''<?php new Foo'',
      parseTree = Phr StatementList [], reparsePending = False\<rparr>"

definition ex_documentStore :: "string ParsedDocumentStore" where
  "ex_documentStore = \<lparr>parsedDocumentmap = [''file:///a.php'' \<mapsto> ex_document]\<rparr>"

definition ex_newContext ::
  "Traverser \<Rightarrow> string \<Rightarrow> SymbolStore \<Rightarrow> string StoreEntry \<Rightarrow> Position \<Rightarrow> error + Context" where
  "ex_newContext spine w store entry position =
     (case entry of
        Document doc \<Rightarrow> Inr (ex_context spine w [] [] [])
      | InheritedMember n \<Rightarrow> Inl TypeError)"

definition ex_provider :: "string CompletionProvider" where
  "ex_provider = new_CompletionProvider ex_collaborators ex_store ex_documentStore 10"

section \<open>Properties of firstToken and lastToken\<close>

lemma firstToken_tokens:
  "firstToken n = (case tokens n of [] \<Rightarrow> None | t # ts \<Rightarrow> Some t)"
  "firstToken_children cs =
     (case concat (map tokens cs) of [] \<Rightarrow> None | t # ts \<Rightarrow> Some t)"
proof (induction n and cs rule: firstToken_firstToken_children.induct)
  case (4 c cs)
  then show ?case by (cases "tokens c") simp_all
qed simp_all

lemma lastToken_tokens:
  "lastToken n = (if tokens n = [] then None else Some (last (tokens n)))"
  "lastToken_children cs =
     (if concat (map tokens cs) = [] then None
      else Some (last (concat (map tokens cs))))"
proof (induction n and cs rule: lastToken_lastToken_children.induct)
  case (4 c cs)
  show ?case
  proof (cases "concat (map tokens cs) = []")
    case True
    then have "lastToken_children cs = None" using 4(1) by simp
    then show ?thesis using 4(2) True by simp
  next
    case False
    then have "lastToken_children cs = Some (last (concat (map tokens cs)))"
      using 4(1) by simp
    then show ?thesis using False by simp
  qed
qed simp_all


text \<open>
  C5, as the code has it. For a node with at least one descendant token:
  when the offsets of its descendant tokens are non-decreasing left to right,
  \<open>firstToken\<close> returns a token whose offset is at most every descendant token's
  offset; when the ends (offset + length) of its descendant tokens are non-decreasing
  left to right, as they are when tokens do not overlap, \<open>lastToken\<close> returns a
  token whose end is at least every descendant token's end. For a node with no
  descendant token, \<open>firstToken\<close>, \<open>lastToken\<close> and \<open>phraseRange\<close> return none.
\<close>

theorem firstToken_lastToken_range_soundness:
  "(tokens n \<noteq> [] \<and> sorted (map offset (tokens n)) \<longrightarrow>
      (\<exists>t. firstToken n = Some t \<and> (\<forall>u \<in> set (tokens n). offset t \<le> offset u)))
   \<and> (tokens n \<noteq> [] \<and> sorted (map token_end (tokens n)) \<longrightarrow>
      (\<exists>t. lastToken n = Some t \<and> (\<forall>u \<in> set (tokens n). token_end u \<le> token_end t)))
   \<and> (tokens n = [] \<longrightarrow>
      firstToken n = None \<and> lastToken n = None \<and> phraseRange pao n = None)"
proof (intro conjI impI)
  assume h: "tokens n \<noteq> [] \<and> sorted (map offset (tokens n))"
  then obtain t ts where ts: "tokens n = t # ts" by (cases "tokens n") auto
  then have "firstToken n = Some t" by (simp add: firstToken_tokens(1))
  moreover have "\<forall>u \<in> set (tokens n). offset t \<le> offset u"
    using h ts by auto
  ultimately show "\<exists>t. firstToken n = Some t \<and> (\<forall>u \<in> set (tokens n). offset t \<le> offset u)"
    by blast
next
  assume h: "tokens n \<noteq> [] \<and> sorted (map token_end (tokens n))"
  then have l: "lastToken n = Some (last (tokens n))" by (simp add: lastToken_tokens(1))
  have "\<forall>u \<in> set (tokens n). token_end u \<le> token_end (last (tokens n))"
  proof
    fix u assume "u \<in> set (tokens n)"
    then obtain i where i: "i < length (tokens n)" "tokens n ! i = u"
      by (auto simp: in_set_conv_nth)
    have "map token_end (tokens n) ! i \<le> map token_end (tokens n) ! (length (tokens n) - 1)"
      using h i(1) by (intro sorted_nth_mono) auto
    then show "token_end u \<le> token_end (last (tokens n))"
      using h i by (simp add: last_conv_nth)
  qed
  with l show "\<exists>t. lastToken n = Some t \<and> (\<forall>u \<in> set (tokens n). token_end u \<le> token_end t)"
    by blast
next
  assume "tokens n = []"
  then show "firstToken n = None" by (simp add: firstToken_tokens(1))
next
  assume "tokens n = []"
  then show "lastToken n = None" by (simp add: lastToken_tokens(1))
next
  assume "tokens n = []"
  then show "phraseRange pao n = None"
    by (simp add: phraseRange_def firstToken_tokens(1))
qed

theorem firstToken_lastToken_range_soundness_witness:
  "tokens ex_call \<noteq> [] \<and> sorted (map offset (tokens ex_call))
   \<and> sorted (map token_end (tokens ex_call))
   \<and> firstToken ex_call = Some \<lparr>tokenType = Name, offset = 3, length_t = 4\<rparr>
   \<and> lastToken ex_call = Some \<lparr>tokenType = OtherToken 0, offset = 7, length_t = 90\<rparr>
   \<and> tokens ex_tokenless = []
   \<and> firstToken ex_tokenless = None \<and> lastToken ex_tokenless = None
   \<and> phraseRange ex_positionAtOffset ex_tokenless = None"
  using firstToken_lastToken_range_soundness [of ex_call ex_positionAtOffset]
    firstToken_lastToken_range_soundness [of ex_tokenless ex_positionAtOffset]
  by (simp add: ex_call_def ex_tokenless_def token_end_def)

text \<open>
  C5 as it is stated asks only for non-decreasing offsets. With two overlapping
  tokens the offsets are non-decreasing, and the token \<open>lastToken\<close> returns ends
  before the first token does.
\<close>

theorem lastToken_end_not_maximal_counterexample:
  "tokens ex_overlap \<noteq> [] \<and> sorted (map offset (tokens ex_overlap))
   \<and> lastToken ex_overlap = Some \<lparr>tokenType = Name, offset = 5, length_t = 1\<rparr>
   \<and> \<lparr>tokenType = Name, offset = 0, length_t = 10\<rparr> \<in> set (tokens ex_overlap)
   \<and> token_end \<lparr>tokenType = Name, offset = 5, length_t = 1\<rparr>
       < token_end \<lparr>tokenType = Name, offset = 0, length_t = 10\<rparr>"
  by (simp add: ex_overlap_def token_end_def)

section \<open>Properties of createAnonymousName\<close>

lemma digit_inj:
  assumes "a < 10" "b < 10" "digit a = digit b" shows "a = b"
proof -
  have "(of_char (digit a) :: nat) = of_char (digit b)" using assms(3) by simp
  then have "(48 + a) mod 256 = (48 + b) mod 256" by (simp add: digit_def)
  then show ?thesis using assms by simp
qed

lemma digit_ne_hash:
  assumes "d < 10" shows "digit d \<noteq> CHR ''#''"
proof
  assume "digit d = CHR ''#''"
  then have "(of_char (digit d) :: nat) = of_char (CHR ''#'')" by simp
  then have "(48 + d) mod 256 = 35" by (simp add: digit_def)
  then show False using assms by simp
qed

lemma numberToString_nonempty: "numberToString n \<noteq> []"
  by (subst numberToString.simps) simp

lemma numberToString_no_hash: "CHR ''#'' \<notin> set (numberToString n)"
proof (induction n rule: numberToString.induct)
  case (1 n)
  show ?case
  proof (cases "n < 10")
    case True
    then show ?thesis using digit_ne_hash [of n]
      by (subst numberToString.simps) auto
  next
    case False
    then show ?thesis using 1 digit_ne_hash [of "n mod 10"]
      by (subst numberToString.simps) auto
  qed
qed

lemma numberToString_inj: "numberToString n = numberToString m \<Longrightarrow> n = m"
proof (induction n arbitrary: m rule: numberToString.induct)
  case (1 n)
  show ?case
  proof (cases "n < 10")
    case n: True
    show ?thesis
    proof (cases "m < 10")
      case True
      then show ?thesis using n 1(2) digit_inj [of n m]
        by (simp add: numberToString.simps [of n] numberToString.simps [of m])
    next
      case False
      then show ?thesis using n 1(2) numberToString_nonempty [of "m div 10"]
        by (simp add: numberToString.simps [of n] numberToString.simps [of m])
    qed
  next
    case n: False
    show ?thesis
    proof (cases "m < 10")
      case True
      then show ?thesis using n 1(2) numberToString_nonempty [of "n div 10"]
        by (simp add: numberToString.simps [of n] numberToString.simps [of m])
    next
      case False
      then have eq: "numberToString (n div 10) = numberToString (m div 10)"
        and d: "digit (n mod 10) = digit (m mod 10)"
        using n 1(2)
        by (simp_all add: numberToString.simps [of n] numberToString.simps [of m])
      have "n div 10 = m div 10" using 1(1) [OF n eq] .
      moreover have "n mod 10 = m mod 10" using digit_inj [OF _ _ d] by simp
      ultimately show ?thesis by (metis div_mult_mod_eq)
    qed
  qed
qed

lemma hash_split:
  "CHR ''#'' \<notin> set a \<Longrightarrow> CHR ''#'' \<notin> set b \<Longrightarrow>
   a @ CHR ''#'' # r = b @ CHR ''#'' # s \<Longrightarrow> a = b \<and> r = s"
proof (induction a arbitrary: b)
  case Nil
  then show ?case by (cases b) auto
next
  case (Cons x a)
  then show ?case by (cases b) auto
qed

lemma suffix_inj:
  assumes "join (map numberToString [a1, a2, a3, a4]) ''#'' =
           join (map numberToString [b1, b2, b3, b4]) ''#''"
  shows "a1 = b1 \<and> a2 = b2 \<and> a3 = b3 \<and> a4 = b4"
proof -
  note nh = numberToString_no_hash
  from assms have e1:
    "numberToString a1 @ CHR ''#'' # (numberToString a2 @ CHR ''#'' # (numberToString a3 @ CHR ''#'' # numberToString a4))
   = numberToString b1 @ CHR ''#'' # (numberToString b2 @ CHR ''#'' # (numberToString b3 @ CHR ''#'' # numberToString b4))"
    by simp
  from hash_split [OF nh nh e1] have s1: "numberToString a1 = numberToString b1"
    and e2: "numberToString a2 @ CHR ''#'' # (numberToString a3 @ CHR ''#'' # numberToString a4)
   = numberToString b2 @ CHR ''#'' # (numberToString b3 @ CHR ''#'' # numberToString b4)"
    by simp_all
  from hash_split [OF nh nh e2] have s2: "numberToString a2 = numberToString b2"
    and e3: "numberToString a3 @ CHR ''#'' # numberToString a4
           = numberToString b3 @ CHR ''#'' # numberToString b4"
    by simp_all
  from hash_split [OF nh nh e3] have s3: "numberToString a3 = numberToString b3"
    and s4: "numberToString a4 = numberToString b4"
    by simp_all
  show ?thesis using s1 s2 s3 s4 by (simp add: numberToString_inj)
qed


text \<open>
  C9. Two phrases (of the same document or of two documents) whose ranges are equal
  get the same anonymous name, and two phrases whose ranges differ in any of the
  four coordinates get different names.
\<close>

theorem createAnonymousName_injective:
  assumes "phraseRange pao1 p1 = Some r1" and "phraseRange pao2 p2 = Some r2"
  shows "(createAnonymousName pao1 p1 = createAnonymousName pao2 p2) = (r1 = r2)"
proof
  assume "createAnonymousName pao1 p1 = createAnonymousName pao2 p2"
  then have "join (map numberToString
                 [line (range_start r1), character (range_start r1),
                  line (range_end r1), character (range_end r1)]) ''#''
           = join (map numberToString
                 [line (range_start r2), character (range_start r2),
                  line (range_end r2), character (range_end r2)]) ''#''"
    using assms by (simp add: createAnonymousName_def)
  from suffix_inj [OF this] show "r1 = r2" by simp
next
  assume "r1 = r2"
  then show "createAnonymousName pao1 p1 = createAnonymousName pao2 p2"
    using assms by (simp add: createAnonymousName_def)
qed

theorem createAnonymousName_injective_witness:
  "phraseRange ex_positionAtOffset ex_call
     = Some \<lparr>range_start = \<lparr>line = 0, character = 3\<rparr>,
             range_end = \<lparr>line = 1, character = 17\<rparr>\<rparr>
   \<and> phraseRange ex_positionAtOffset ex_overlap
     = Some \<lparr>range_start = \<lparr>line = 0, character = 0\<rparr>,
             range_end = \<lparr>line = 0, character = 6\<rparr>\<rparr>
   \<and> createAnonymousName ex_positionAtOffset ex_call
     \<noteq> createAnonymousName ex_positionAtOffset ex_overlap
   \<and> createAnonymousName ex_positionAtOffset ex_call
     = createAnonymousName ex_positionAtOffset ex_call"
proof -
  have c: "phraseRange ex_positionAtOffset ex_call
     = Some \<lparr>range_start = \<lparr>line = 0, character = 3\<rparr>,
             range_end = \<lparr>line = 1, character = 17\<rparr>\<rparr>"
    by (simp add: phraseRange_def ex_call_def ex_positionAtOffset_def)
  have o: "phraseRange ex_positionAtOffset ex_overlap
     = Some \<lparr>range_start = \<lparr>line = 0, character = 0\<rparr>,
             range_end = \<lparr>line = 0, character = 6\<rparr>\<rparr>"
    by (simp add: phraseRange_def ex_overlap_def ex_positionAtOffset_def)
  show ?thesis
    using c o createAnonymousName_injective [OF c o] createAnonymousName_injective [OF c c]
    by simp
qed

text \<open>
  C10. \<open>createAnonymousName\<close> returns an identifier exactly for a phrase with at least
  one descendant token; for a phrase with none, \<open>phraseRange\<close> is null and reading
  its \<open>start\<close> raises a TypeError.
\<close>

theorem createAnonymousName_requires_token:
  "(tokens p = [] \<longrightarrow> createAnonymousName pao p = Inl TypeError)
   \<and> (tokens p \<noteq> [] \<longrightarrow> (\<exists>s. createAnonymousName pao p = Inr s))"
proof (intro conjI impI)
  assume "tokens p = []"
  then show "createAnonymousName pao p = Inl TypeError"
    by (simp add: createAnonymousName_def phraseRange_def firstToken_tokens(1))
next
  assume "tokens p \<noteq> []"
  then obtain t ts where "tokens p = t # ts" by (cases "tokens p") auto
  then have "firstToken p = Some t" "lastToken p = Some (last (t # ts))"
    by (simp_all add: firstToken_tokens(1) lastToken_tokens(1))
  then show "\<exists>s. createAnonymousName pao p = Inr s"
    by (simp add: createAnonymousName_def phraseRange_def Let_def)
qed

theorem createAnonymousName_requires_token_witness:
  "tokens ex_tokenless = []
   \<and> createAnonymousName ex_positionAtOffset ex_tokenless = Inl TypeError
   \<and> tokens ex_call \<noteq> []
   \<and> (\<exists>s. createAnonymousName ex_positionAtOffset ex_call = Inr s)"
  using createAnonymousName_requires_token [of ex_tokenless ex_positionAtOffset]
    createAnonymousName_requires_token [of ex_call ex_positionAtOffset]
  by (simp add: ex_tokenless_def ex_call_def)

section \<open>Properties of applyChanges\<close>

lemma set_insert_sorted: "set (insert_sorted cmp x xs) = insert x (set xs)"
  by (induction xs) auto

lemma mset_insert_sorted: "mset (insert_sorted cmp x xs) = add_mset x (mset xs)"
  by (induction xs) auto

lemma mset_array_sort: "mset (array_sort cmp xs) = mset xs"
  by (induction xs) (auto simp: mset_insert_sorted)

lemma compareFn_le: "textDocumentChangeCompareFn a b \<le> 0 \<longleftrightarrow> applied_before a b"
  by (auto simp: textDocumentChangeCompareFn_def applied_before_def end_line_def end_character_def)

lemma applied_before_total: "applied_before a b \<or> applied_before b a"
  by (auto simp: applied_before_def)

lemma applied_before_trans: "applied_before a b \<Longrightarrow> applied_before b c \<Longrightarrow> applied_before a c"
  by (auto simp: applied_before_def)

lemma sorted_insert_sorted:
  "sorted_wrt applied_before xs \<Longrightarrow>
   sorted_wrt applied_before (insert_sorted textDocumentChangeCompareFn x xs)"
proof (induction xs)
  case Nil
  then show ?case by simp
next
  case (Cons y ys)
  show ?case
  proof (cases "textDocumentChangeCompareFn x y \<le> 0")
    case True
    then have xy: "applied_before x y" by (simp add: compareFn_le)
    then have "\<forall>z \<in> set ys. applied_before x z"
      using Cons.prems applied_before_trans by auto
    then show ?thesis using True xy Cons.prems by simp
  next
    case False
    then have "applied_before y x"
      using applied_before_total [of x y] by (simp add: compareFn_le)
    then show ?thesis using False Cons by (auto simp: set_insert_sorted)
  qed
qed

lemma sorted_array_sort: "sorted_wrt applied_before (array_sort textDocumentChangeCompareFn xs)"
  by (induction xs) (auto intro: sorted_insert_sorted)

lemma applyEdits_record: "applyEdits record_applyEdit calls cs = calls @ cs"
  by (induction cs arbitrary: calls) (simp_all add: record_applyEdit_def)

lemma applied_order_sort: "applied_order cs = array_sort textDocumentChangeCompareFn cs"
  by (simp add: applied_order_def applyChanges_def applyEdits_record)

lemma ex_order: "applied_order ex_batch = [ex_edit 2 0 3 1 ''b'', ex_edit 0 6 0 9 ''c'', ex_edit 0 1 0 4 ''a'']"
  by (simp add: applied_order_def applyChanges_def ex_batch_def ex_edit_def
      textDocumentChangeCompareFn_def record_applyEdit_def)

text \<open>
  C4. \<open>applyChanges\<close> applies every edit of the batch exactly once, and of two
  edits the one applied earlier has the greater end line, or the same end line and
  a greater or equal end character.
\<close>

theorem applyChanges_descending_end_order:
  "mset (applied_order cs) = mset cs
   \<and> (\<forall>i j. i < j \<and> j < length (applied_order cs) \<longrightarrow>
        end_line (applied_order cs ! j) < end_line (applied_order cs ! i)
        \<or> (end_line (applied_order cs ! j) = end_line (applied_order cs ! i)
            \<and> end_character (applied_order cs ! j) \<le> end_character (applied_order cs ! i)))"
proof (intro conjI allI impI)
  show "mset (applied_order cs) = mset cs"
    by (simp add: applied_order_sort mset_array_sort)
next
  fix i j assume "i < j \<and> j < length (applied_order cs)"
  then have "applied_before (applied_order cs ! i) (applied_order cs ! j)"
    using sorted_array_sort [of cs]
    by (simp add: applied_order_sort sorted_wrt_iff_nth_less)
  then show "end_line (applied_order cs ! j) < end_line (applied_order cs ! i)
        \<or> (end_line (applied_order cs ! j) = end_line (applied_order cs ! i)
            \<and> end_character (applied_order cs ! j) \<le> end_character (applied_order cs ! i))"
    by (simp add: applied_before_def)
qed

theorem applyChanges_descending_end_order_witness:
  "(0::nat) < 2 \<and> 2 < length (applied_order ex_batch)
   \<and> mset (applied_order ex_batch) = mset ex_batch
   \<and> (end_line (applied_order ex_batch ! 2) < end_line (applied_order ex_batch ! 0)
        \<or> (end_line (applied_order ex_batch ! 2) = end_line (applied_order ex_batch ! 0)
            \<and> end_character (applied_order ex_batch ! 2)
                \<le> end_character (applied_order ex_batch ! 0)))"
proof -
  have len: "(0::nat) < 2 \<and> 2 < length (applied_order ex_batch)"
    by (simp add: ex_order)
  from applyChanges_descending_end_order [of ex_batch] len show ?thesis by blast
qed

section \<open>Properties of the completion strategies\<close>

lemmas ex_defs =
  ex_collaborators_def ex_store_def ex_context_def ex_token_def ex_object_spine_def
  ex_scoped_spine_def ex_new_spine_def ex_keyword_item_def
  ex_document_def ex_documentStore_def ex_newContext_def
  ex_provider_def ex_members_def ex_method_def ex_class_def prefixMatch_def
  parent_pop_def first_child_def startsWith_def traverser_node_def
  traverser_ancestor_def isToken_def isPhrase_def phraseType_of_def

lemmas flag_defs =
  SymbolKind_Class_def SymbolKind_Constant_def SymbolKind_Property_def
  SymbolKind_Method_def SymbolKind_Function_def SymbolKind_Parameter_def
  SymbolKind_Variable_def SymbolKind_ClassConstant_def SymbolModifier_Public_def
  SymbolModifier_Protected_def SymbolModifier_Private_def SymbolModifier_Abstract_def
  SymbolModifier_Static_def SymbolModifier_Anonymous_def SymbolModifier_Use_def

lemma convert_items_length: "convert_items f xs = Inr ys \<Longrightarrow> length ys = length xs"
  by (induction xs arbitrary: ys) (auto split: sum.splits)

lemma SimpleVariable_completions_capped:
  assumes "0 \<le> maxS" and "SimpleVariable_completions maxS ctx = Inr r"
  shows "int (length (items r)) \<le> maxS"
  using assms
  by (auto simp: SimpleVariable_completions_def noCompletionResponse_def Let_def
      split: if_splits)

lemma ScopedAccess_completions_capped:
  assumes "0 \<le> maxS" and "ScopedAccess_completions co store maxS ctx = Inr r"
  shows "int (length (items r)) \<le> maxS"
  using assms
  by (auto simp: ScopedAccess_completions_def noCompletionResponse_def Let_def
      dest!: convert_items_length split: if_splits option.splits sum.splits)

lemma ObjectAccess_completions_capped:
  assumes "0 \<le> maxS" and "ObjectAccess_completions co store maxS ctx = Inr r"
  shows "int (length (items r)) \<le> maxS"
  using assms
  by (auto simp: ObjectAccess_completions_def noCompletionResponse_def Let_def
      dest!: convert_items_length split: if_splits option.splits sum.splits)

text \<open>
  The two strategies with keywords: when the flag is clear the list is within the
  maximum, and when it is set the list has at least the maximum number of items.
\<close>

lemma NameCompletion_completions_flag:
  assumes "0 \<le> K" and "NameCompletion_completions co K ctx = Inr r"
  shows "(\<not> isIncomplete r \<longrightarrow> int (length (items r)) \<le> K)
       \<and> (isIncomplete r \<longrightarrow> K \<le> int (length (items r)))"
proof (cases "namespaceNamePhraseText ctx (fst (traverser_parent co (createTraverser ctx)))
                (context_offset ctx) = []")
  case True
  then have "r = noCompletionResponse"
    using assms(2) by (simp add: NameCompletion_completions_def split_def Let_def)
  then show ?thesis using assms(1) by (simp add: noCompletionResponse_def)
next
  case False
  then show ?thesis
    using assms
    by (auto simp: NameCompletion_completions_def split_def Let_def
        split: option.splits sum.splits)
qed

lemma ClassTypeDesignator_completions_flag:
  assumes "0 \<le> K" and "ClassTypeDesignator_completions co K ctx = Inr r"
  shows "(\<not> isIncomplete r \<longrightarrow> int (length (items r)) \<le> K)
       \<and> (isIncomplete r \<longrightarrow> K \<le> int (length (items r)))"
proof (cases "namespaceNamePhraseText ctx (fst (traverser_parent co (createTraverser ctx)))
                (context_offset ctx) = []")
  case True
  then have "r = noCompletionResponse"
    using assms(2) by (simp add: ClassTypeDesignator_completions_def split_def Let_def)
  then show ?thesis using assms(1) by (simp add: noCompletionResponse_def)
next
  case False
  then show ?thesis
    using assms
    by (auto simp: ClassTypeDesignator_completions_def split_def Let_def
        split: option.splits)
qed

lemma base_pred_false: "\<not> ObjectAccess_createBaseMembersPredicate fuzzy text s"
  by (simp add: ObjectAccess_createBaseMembersPredicate_def or_eq_0_iff SymbolModifier_Static_def)


text \<open>
  C2. Class \<open>A\<close> has a private method \<open>f\<close> and a public method \<open>g\<close>. For an
  expression of type \<open>A\<close> and the prefix \<open>g\<close>, a request from inside class \<open>B\<close>,
  whose base class is \<open>A\<close>, gets no item: the base-members predicate rejects every
  symbol. The same request from inside an unrelated class \<open>C\<close> gets \<open>g\<close>.
\<close>

theorem ObjectAccess_base_class_members_rejected:
  "ObjectAccess_completions ex_collaborators ex_store 100
       (ex_context ex_object_spine ''g'' ''B'' ''A'' [''A''])
     = Inr \<lparr>items = [], isIncomplete = False\<rparr>
   \<and> ObjectAccess_completions ex_collaborators ex_store 100
       (ex_context ex_object_spine ''g'' ''C'' ''D'' [''A''])
     = Inr \<lparr>items = [toMethodCompletionItem (ex_method ''g'' SymbolModifier_Public)],
            isIncomplete = False\<rparr>"
  by (simp add: ObjectAccess_completions_def memberQueries_of_def isMemberAccessExpr_def
      ObjectAccess_createBaseMembersPredicate_def ObjectAccess_createMembersPredicate_def
      ObjectAccess_toCompletionItem_def ex_defs flag_defs)

text \<open>
  C8. The scoped-access conversion raises exactly for a kind other than class
  constant, method and property, and the object-access conversion exactly for a kind
  other than method and property; otherwise an item is returned.
\<close>

theorem toCompletionItem_raises_iff:
  "(isl (ScopedAccess_toCompletionItem s) \<longleftrightarrow>
      \<not> (kind s = SymbolKind_ClassConstant \<or> kind s = SymbolKind_Method
          \<or> kind s = SymbolKind_Property))
   \<and> (isl (ObjectAccess_toCompletionItem s) \<longleftrightarrow>
      \<not> (kind s = SymbolKind_Method \<or> kind s = SymbolKind_Property))"
  by (simp add: ScopedAccess_toCompletionItem_def ObjectAccess_toCompletionItem_def)

theorem toCompletionItem_raises_iff_witness:
  "\<not> isl (ScopedAccess_toCompletionItem (ex_method ''g'' SymbolModifier_Public))
   \<and> \<not> isl (ObjectAccess_toCompletionItem (ex_method ''g'' SymbolModifier_Public))
   \<and> isl (ScopedAccess_toCompletionItem (ex_class ''A''))
   \<and> isl (ObjectAccess_toCompletionItem (ex_class ''A''))"
  using toCompletionItem_raises_iff [of "ex_method ''g'' SymbolModifier_Public"]
    toCompletionItem_raises_iff [of "ex_class ''A''"]
  by (simp add: ex_method_def ex_class_def flag_defs)

text \<open>
  C6. When the accessed expression's type has no class names, the scoped-access and
  the object-access strategy return the empty list with the flag clear, and raise
  nothing.
\<close>

theorem access_completions_no_type:
  "(traverser_ancestor isScopedAccessExpr (createTraverser ctx) = Some e
      \<and> atomicClassArray (resolveExpressionType ctx (scope_of co e)) = [] \<longrightarrow>
      ScopedAccess_completions co store maxS ctx = Inr \<lparr>items = [], isIncomplete = False\<rparr>)
   \<and> (traverser_ancestor isMemberAccessExpr (createTraverser ctx) = Some e'
      \<and> atomicClassArray (resolveExpressionType ctx (variable_of co e')) = [] \<longrightarrow>
      ObjectAccess_completions co store maxS ctx = Inr \<lparr>items = [], isIncomplete = False\<rparr>)"
  by (simp add: ScopedAccess_completions_def ObjectAccess_completions_def
      noCompletionResponse_def)


theorem access_completions_no_type_witness:
  "traverser_ancestor isScopedAccessExpr
       (createTraverser (ex_context ex_scoped_spine [] ''A'' [] []))
     = Some (Phr ErrorScopedAccessExpression
               [Phr QualifiedName [Phr NamespaceName [ex_token Name]], ex_token ColonColon])
   \<and> ScopedAccess_completions ex_collaborators ex_store 10
        (ex_context ex_scoped_spine [] ''A'' [] [])
     = Inr \<lparr>items = [], isIncomplete = False\<rparr>
   \<and> traverser_ancestor isMemberAccessExpr
       (createTraverser (ex_context ex_object_spine ''g'' ''A'' [] []))
     = Some (Phr PropertyAccessExpression
               [Phr SimpleVariable [ex_token VariableName], ex_token Arrow,
                Phr MemberName [ex_token Name]])
   \<and> ObjectAccess_completions ex_collaborators ex_store 10
        (ex_context ex_object_spine ''g'' ''A'' [] [])
     = Inr \<lparr>items = [], isIncomplete = False\<rparr>"
proof -
  have s: "traverser_ancestor isScopedAccessExpr
       (createTraverser (ex_context ex_scoped_spine [] ''A'' [] []))
     = Some (Phr ErrorScopedAccessExpression
               [Phr QualifiedName [Phr NamespaceName [ex_token Name]], ex_token ColonColon])"
    by (simp add: traverser_ancestor_def isScopedAccessExpr_def phraseType_of_def
        ex_context_def ex_scoped_spine_def ex_token_def)
  have o: "traverser_ancestor isMemberAccessExpr
       (createTraverser (ex_context ex_object_spine ''g'' ''A'' [] []))
     = Some (Phr PropertyAccessExpression
               [Phr SimpleVariable [ex_token VariableName], ex_token Arrow,
                Phr MemberName [ex_token Name]])"
    by (simp add: traverser_ancestor_def isMemberAccessExpr_def phraseType_of_def
        ex_context_def ex_object_spine_def ex_token_def)
  have e: "\<And>sp w n. atomicClassArray (resolveExpressionType (ex_context sp w ''A'' [] []) n) = []"
    by (simp add: ex_context_def)
  show ?thesis
    using s o e
      access_completions_no_type [where ctx = "ex_context ex_scoped_spine [] ''A'' [] []"
        and co = ex_collaborators and store = ex_store and maxS = 10]
      access_completions_no_type [where ctx = "ex_context ex_object_spine ''g'' ''A'' [] []"
        and co = ex_collaborators and store = ex_store and maxS = 10]
    by simp
qed

section \<open>Properties of provideCompletions\<close>

lemma select_strategy_none:
  "\<forall>s \<in> set ss. \<not> canSuggest s ctx \<Longrightarrow> select_strategy ss ctx = None"
  by (induction ss) auto

lemma select_strategy_first:
  "i < length ss \<Longrightarrow> canSuggest (ss ! i) ctx \<Longrightarrow> \<forall>j<i. \<not> canSuggest (ss ! j) ctx
   \<Longrightarrow> select_strategy ss ctx = Some (ss ! i)"
proof (induction ss arbitrary: i)
  case Nil
  then show ?case by simp
next
  case (Cons s ss)
  show ?case
  proof (cases i)
    case 0
    then show ?thesis using Cons.prems by simp
  next
    case (Suc k)
    then have "\<not> canSuggest s ctx" using Cons.prems(3) by auto
    moreover have "select_strategy ss ctx = Some (ss ! k)"
      using Cons.prems Suc by (intro Cons.IH) auto
    ultimately show ?thesis using Suc by simp
  qed
qed

text \<open>
  For an entry that \<open>find\<close> gives and a context that the constructor builds from it,
  \<open>provideCompletions\<close> returns the empty response when no strategy can suggest, and
  otherwise the completions of the first strategy in the list that can suggest; for
  the provider the constructor builds that is the class-type-designator strategy
  whenever it can suggest.
\<close>

lemma provideCompletions_first_match:
  assumes "find_document (documentStore p) u = Some entry"
    and "newContext (symbolStore p) entry pos = Inr ctx"
  shows "((\<forall>s \<in> set (strategies p). \<not> canSuggest s ctx) \<longrightarrow>
            provideCompletions newContext p u pos = Inr noCompletionResponse)
       \<and> (\<forall>i. i < length (strategies p) \<and> canSuggest (strategies p ! i) ctx
                \<and> (\<forall>j<i. \<not> canSuggest (strategies p ! j) ctx) \<longrightarrow>
            provideCompletions newContext p u pos = completions (strategies p ! i) ctx)
       \<and> (p = new_CompletionProvider co store docs maxS
            \<and> ClassTypeDesignator_canSuggest co ctx \<longrightarrow>
            provideCompletions newContext p u pos
              = ClassTypeDesignator_completions co maxS ctx)"
proof (intro conjI allI impI)
  assume "\<forall>s \<in> set (strategies p). \<not> canSuggest s ctx"
  then show "provideCompletions newContext p u pos = Inr noCompletionResponse"
    using assms by (simp add: provideCompletions_def select_strategy_none)
next
  fix i
  assume "i < length (strategies p) \<and> canSuggest (strategies p ! i) ctx
            \<and> (\<forall>j<i. \<not> canSuggest (strategies p ! j) ctx)"
  then have "select_strategy (strategies p) ctx = Some (strategies p ! i)"
    by (simp add: select_strategy_first)
  then show "provideCompletions newContext p u pos = completions (strategies p ! i) ctx"
    using assms by (simp add: provideCompletions_def)
next
  assume h: "p = new_CompletionProvider co store docs maxS
               \<and> ClassTypeDesignator_canSuggest co ctx"
  then have "select_strategy (strategies p) ctx = Some (ClassTypeDesignatorCompletion co maxS)"
    by (simp add: new_CompletionProvider_def ClassTypeDesignatorCompletion_def)
  then show "provideCompletions newContext p u pos
               = ClassTypeDesignator_completions co maxS ctx"
    using assms by (simp add: provideCompletions_def ClassTypeDesignatorCompletion_def)
qed

text \<open>
  The request for the name token of \<open>new Foo\<close> in the open document, with any text
  in place of \<open>Foo\<close>: the class-type-designator strategy can suggest, and
  \<open>provideCompletions\<close> returns its completions.
\<close>

lemma ex_new_canSuggest:
  assumes "traverser_parent co = parent_pop"
  shows "ClassTypeDesignator_canSuggest co (ex_context ex_new_spine w [] [] [])"
  using assms
  by (simp add: ClassTypeDesignator_canSuggest_def ex_context_def ex_new_spine_def
      ex_token_def parent_pop_def traverser_node_def isToken_def isPhrase_def)

lemma ex_new_provideCompletions:
  assumes "traverser_parent co = parent_pop"
  shows "provideCompletions (ex_newContext ex_new_spine w)
           (new_CompletionProvider co ex_store ex_documentStore k) ''file:///a.php'' pos
         = ClassTypeDesignator_completions co k (ex_context ex_new_spine w [] [] [])"
  using ex_new_canSuggest [OF assms, of w]
  by (simp add: provideCompletions_def find_document_def ex_documentStore_def
      new_CompletionProvider_def ex_newContext_def ClassTypeDesignatorCompletion_def)

lemma ex_new_completions:
  "ClassTypeDesignator_completions ex_collaborators 10 (ex_context ex_new_spine ''Foo'' [] [] [])
     = Inr \<lparr>items = [\<lparr>label = ''Foo'', item_kind = LspSymbolKind_Constructor,
                       detail = Some ''Foo'', documentation = None,
                       insertText = Some ''Foo($0)'', insertTextFormat = Some Snippet\<rparr>],
            isIncomplete = False\<rparr>"
  by (simp add: ClassTypeDesignator_completions_def ClassTypeDesignator_keywords_def
      ClassTypeDesignator_symbolFilter_def toNameCompletionItem_def Let_def ex_defs flag_defs)

lemma ex_new_completions_c:
  "ClassTypeDesignator_completions ex_collaborators 0 (ex_context ex_new_spine ''c'' [] [] [])
     = Inr \<lparr>items = [ex_keyword_item ''class''], isIncomplete = True\<rparr>"
  by (simp add: ClassTypeDesignator_completions_def ClassTypeDesignator_keywords_def
      ClassTypeDesignator_symbolFilter_def Let_def ex_defs flag_defs)

lemma ex_new_completions_s:
  "ClassTypeDesignator_completions ex_collaborators_subsequence 2
       (ex_context ex_new_spine ''s'' [] [] [])
     = Inr \<lparr>items = [ex_keyword_item ''class'', ex_keyword_item ''static'',
                     ex_keyword_item ''namespace''],
            isIncomplete = True\<rparr>"
  by (simp add: ClassTypeDesignator_completions_def ClassTypeDesignator_keywords_def
      ClassTypeDesignator_symbolFilter_def Let_def ex_collaborators_subsequence_def
      ex_defs flag_defs)

lemma ex_new_name_completions:
  "NameCompletion_completions ex_collaborators 10 (ex_context ex_new_spine ''Foo'' [] [] [])
     = Inr \<lparr>items = [\<lparr>label = ''Foo'', item_kind = LspSymbolKind_Class,
                       detail = Some ''Foo'', documentation = None,
                       insertText = Some ''Foo($0)'', insertTextFormat = Some Snippet\<rparr>],
            isIncomplete = False\<rparr>"
proof -
  have "keywordCompletionItems prefixMatch NameCompletion_expressionKeywords ''Foo'' = []"
    by code_simp
  then show ?thesis
    by (simp add: NameCompletion_completions_def NameCompletion_keywordItems_def
        NameCompletion_symbolFilter_def toNameCompletionItem_def
        symbolKindToLspSymbolKind_def Let_def ex_collaborators_def ex_store_def
        ex_context_def ex_new_spine_def ex_token_def ex_class_def prefixMatch_def
        parent_pop_def startsWith_def traverser_node_def phraseType_of_def flag_defs)
qed

text \<open>
  C1. The strategies for variables and for member access cap the whole list at
  \<open>maxSuggestions\<close>. The two strategies with keywords cap only the symbol matches, at
  \<open>maxSuggestions\<close> minus the number of keyword items, and never the keyword items.
  For the name token of \<open>new c\<close> and a maximum of 0, \<open>provideCompletions\<close> returns
  the keyword \<open>class\<close>; with a matcher that accepts a subsequence, for the name token
  of \<open>new s\<close> and a maximum of 2 it returns the three keywords \<open>class\<close>, \<open>static\<close>
  and \<open>namespace\<close>. Both lists are one item longer than the maximum.
\<close>

theorem provideCompletions_exceeds_maxSuggestions:
  "provideCompletions (ex_newContext ex_new_spine ''c'')
       (new_CompletionProvider ex_collaborators ex_store ex_documentStore 0)
       ''file:///a.php'' \<lparr>line = 0, character = 10\<rparr>
     = Inr \<lparr>items = [ex_keyword_item ''class''], isIncomplete = True\<rparr>
   \<and> provideCompletions (ex_newContext ex_new_spine ''s'')
       (new_CompletionProvider ex_collaborators_subsequence ex_store ex_documentStore 2)
       ''file:///a.php'' \<lparr>line = 0, character = 10\<rparr>
     = Inr \<lparr>items = [ex_keyword_item ''class'', ex_keyword_item ''static'',
                     ex_keyword_item ''namespace''],
            isIncomplete = True\<rparr>"
proof -
  have p: "traverser_parent ex_collaborators = parent_pop"
    by (simp add: ex_collaborators_def)
  have q: "traverser_parent ex_collaborators_subsequence = parent_pop"
    by (simp add: ex_collaborators_subsequence_def)
  show ?thesis
    by (simp only: ex_new_provideCompletions [OF p] ex_new_provideCompletions [OF q]
        ex_new_completions_c ex_new_completions_s)
qed

text \<open>
  The class-type-designator strategy and the general-name strategy both test the
  node that the first \<open>parent()\<close> of a fresh traverser returns: the first wants a
  namespace name, the second a qualified name of one of the three forms. So they
  never can suggest for the same context, whatever \<open>parent()\<close> does.
\<close>

lemma canSuggest_exclusive:
  "\<not> (ClassTypeDesignator_canSuggest co ctx \<and> NameCompletion_canSuggest co ctx)"
  by (auto simp: ClassTypeDesignator_canSuggest_def NameCompletion_canSuggest_def
      isPhrase_def Let_def split_def split: option.splits Node.splits)

text \<open>
  C3. For the name token of \<open>new Foo\<close> the class-type-designator strategy can suggest
  and \<open>provideCompletions\<close> returns its completions, the constructor item \<open>Foo\<close>. The
  general-name strategy's \<open>canSuggest\<close> is false for the same context: it tests the
  first \<open>parent()\<close>, here the namespace name, for a qualified name. Its
  \<open>completions\<close> reads the first \<open>parent()\<close> as the namespace name and the second as
  the qualified name, and on this context returns the class \<open>Foo\<close>.
\<close>

theorem NameCompletion_canSuggest_skips_namespace_name:
  "ClassTypeDesignator_canSuggest ex_collaborators (ex_context ex_new_spine ''Foo'' [] [] [])
   \<and> provideCompletions (ex_newContext ex_new_spine ''Foo'') ex_provider
        ''file:///a.php'' \<lparr>line = 0, character = 13\<rparr>
     = Inr \<lparr>items = [\<lparr>label = ''Foo'', item_kind = LspSymbolKind_Constructor,
                       detail = Some ''Foo'', documentation = None,
                       insertText = Some ''Foo($0)'', insertTextFormat = Some Snippet\<rparr>],
            isIncomplete = False\<rparr>
   \<and> \<not> NameCompletion_canSuggest ex_collaborators (ex_context ex_new_spine ''Foo'' [] [] [])
   \<and> NameCompletion_completions ex_collaborators 10 (ex_context ex_new_spine ''Foo'' [] [] [])
     = Inr \<lparr>items = [\<lparr>label = ''Foo'', item_kind = LspSymbolKind_Class,
                       detail = Some ''Foo'', documentation = None,
                       insertText = Some ''Foo($0)'', insertTextFormat = Some Snippet\<rparr>],
            isIncomplete = False\<rparr>"
proof -
  have p: "traverser_parent ex_collaborators = parent_pop"
    by (simp add: ex_collaborators_def)
  have "\<not> NameCompletion_canSuggest ex_collaborators (ex_context ex_new_spine ''Foo'' [] [] [])"
    by (simp add: NameCompletion_canSuggest_def ex_defs)
  then show ?thesis
    using ex_new_canSuggest [OF p, of "''Foo''"]
      ex_new_provideCompletions [OF p, of "''Foo''" 10 "\<lparr>line = 0, character = 13\<rparr>"]
      ex_new_completions ex_new_name_completions
    by (simp add: ex_provider_def)
qed

text \<open>
  An identifier that has no entry in the store and is not the name of an inherited
  member gets the empty response; every identifier with a colon, and so every URI
  with a scheme, is of that kind. For the name of an inherited member that has no
  entry, the early return is not taken: the result is what the context constructor
  and the strategies make of the inherited member.
\<close>

lemma uri_not_inherited: "CHR '':'' \<in> set u \<Longrightarrow> u \<notin> set objectPrototype_members"
  by (auto simp: objectPrototype_members_def)

lemma provideCompletions_unknown_document:
  assumes "parsedDocumentmap (documentStore p) u = None"
    and "u \<notin> set objectPrototype_members"
  shows "provideCompletions newContext p u pos = Inr \<lparr>items = [], isIncomplete = False\<rparr>"
  using assms by (simp add: provideCompletions_def find_document_def noCompletionResponse_def)

lemma provideCompletions_inherited_member:
  assumes "parsedDocumentmap (documentStore p) u = None"
    and "u \<in> set objectPrototype_members"
  shows "provideCompletions newContext p u pos
         = (case newContext (symbolStore p) (InheritedMember u) pos of
              Inl e \<Rightarrow> Inl e
            | Inr context \<Rightarrow>
               (case select_strategy (strategies p) context of
                  None \<Rightarrow> Inr noCompletionResponse
                | Some strategy \<Rightarrow> completions strategy context))"
  using assms by (simp add: provideCompletions_def find_document_def)

text \<open>
  C7. The store has only the document \<open>file:///a.php\<close>. For the identifier
  \<open>constructor\<close>, which has no entry, \<open>find\<close> gives the member the store's object
  inherits, the guard for an unknown document does not fire, and the request ends in
  the TypeError of the context constructor instead of the empty response.
\<close>

theorem provideCompletions_inherited_key_not_empty:
  "parsedDocumentmap ex_documentStore ''constructor'' = None
   \<and> find_document ex_documentStore ''constructor'' = Some (InheritedMember ''constructor'')
   \<and> provideCompletions (ex_newContext ex_new_spine ''Foo'') ex_provider ''constructor''
        \<lparr>line = 0, character = 13\<rparr> = Inl TypeError"
  by (simp add: provideCompletions_def find_document_def objectPrototype_members_def
      ex_documentStore_def ex_provider_def new_CompletionProvider_def ex_newContext_def)

end
